theory Spec2Isabelle
  imports Main
begin

section \<open>Values, records and errors\<close>

text \<open>
  The module \<^verbatim>\<open>kaggle_reader_slow.py\<close> works on dictionaries from field names to
  values. The values that occur are the texts produced by the record source, the
  integers and texts a caller passes as targets, and \<^verbatim>\<open>None\<close>, which
  \<^verbatim>\<open>dict.get\<close> returns for an absent key. A Python \<^verbatim>\<open>str\<close> is a
  \<open>string\<close>, one \<open>char\<close> per character, so the model covers the texts whose
  characters have code points below 256.
\<close>

datatype pyval = PyNone | PyStr string | PyInt int

text \<open>
  Every exception the modelled code can raise. \<open>InvalidOperator\<close> is
  \<^verbatim>\<open>Exception("Invalid Operator")\<close> of \<^verbatim>\<open>operators_reader\<close>; the others are
  the built-in exceptions of the same name.
\<close>

datatype error = InvalidOperator | ValueError | TypeError | KeyError | IndexError | AttributeError

type_synonym pydict = "string \<rightharpoonup> pyval"

text \<open>\<^verbatim>\<open>el.get(k)\<close>: the value, or \<^verbatim>\<open>None\<close> when the key is absent.\<close>

definition dict_get :: "pydict \<Rightarrow> string \<Rightarrow> pyval" where
  "dict_get el k = (case el k of None \<Rightarrow> PyNone | Some v \<Rightarrow> v)"

text \<open>\<^verbatim>\<open>game[k]\<close>: the value, or \<^verbatim>\<open>KeyError\<close> when the key is absent.\<close>

definition dict_getitem :: "pydict \<Rightarrow> string \<Rightarrow> error + pyval" where
  "dict_getitem game k = (case game k of None \<Rightarrow> Inl KeyError | Some v \<Rightarrow> Inr v)"

section \<open>The comparators of the \<^verbatim>\<open>operator\<close> module\<close>

datatype comparator = LT | LE | EQ | NE | GE | GT

text \<open>Texts are ordered lexicographically by code point.\<close>

fun str_lt :: "string \<Rightarrow> string \<Rightarrow> bool" where
  "str_lt [] [] = False"
| "str_lt [] (y # ys) = True"
| "str_lt (x # xs) [] = False"
| "str_lt (x # xs) (y # ys) =
     (if (of_char x :: nat) < of_char y then True
      else if (of_char y :: nat) < of_char x then False
      else str_lt xs ys)"

text \<open>
  \<^verbatim>\<open>a < b\<close>: defined between two texts and between two integers; every other
  pairing, and every pairing with \<^verbatim>\<open>None\<close>, raises \<^verbatim>\<open>TypeError\<close>.
\<close>

fun py_lt :: "pyval \<Rightarrow> pyval \<Rightarrow> error + bool" where
  "py_lt (PyStr a) (PyStr b) = Inr (str_lt a b)"
| "py_lt (PyInt a) (PyInt b) = Inr (a < b)"
| "py_lt _ _ = Inl TypeError"

fun py_le :: "pyval \<Rightarrow> pyval \<Rightarrow> error + bool" where
  "py_le (PyStr a) (PyStr b) = Inr (a = b \<or> str_lt a b)"
| "py_le (PyInt a) (PyInt b) = Inr (a \<le> b)"
| "py_le _ _ = Inl TypeError"

text \<open>
  \<^verbatim>\<open>op(a, b)\<close> for the function \<^verbatim>\<open>op\<close> that \<^verbatim>\<open>getattr(operator, name)\<close>
  returns. Equality never raises: values of different kinds are unequal.
\<close>

fun apply_op :: "comparator \<Rightarrow> pyval \<Rightarrow> pyval \<Rightarrow> error + bool" where
  "apply_op LT a b = py_lt a b"
| "apply_op LE a b = py_le a b"
| "apply_op EQ a b = Inr (a = b)"
| "apply_op NE a b = Inr (a \<noteq> b)"
| "apply_op GE a b = py_le b a"
| "apply_op GT a b = py_lt b a"

type_synonym triple = "comparator \<times> string \<times> pyval"

section \<open>\<^verbatim>\<open>selector\<close>\<close>

text \<open>
  The loop of \<^verbatim>\<open>selector\<close> (lines 22 to 28): every triple is evaluated, in order,
  on \<^verbatim>\<open>el.get(k)\<close> and the target, and folded into \<^verbatim>\<open>result\<close> with
  \<^verbatim>\<open>or\<close> when the mode equals \<^verbatim>\<open>'or'\<close> and with \<^verbatim>\<open>and\<close> otherwise. An
  exception of a comparator leaves the loop.
\<close>

fun selector_loop :: "pydict \<Rightarrow> pyval \<Rightarrow> triple list \<Rightarrow> bool \<Rightarrow> error + bool" where
  "selector_loop el mode [] result = Inr result"
| "selector_loop el mode ((op, k, v) # operators) result =
     (case apply_op op (dict_get el k) v of
        Inl e \<Rightarrow> Inl e
      | Inr r \<Rightarrow>
          selector_loop el mode operators
            (if mode = PyStr ''or'' then r \<or> result else r \<and> result))"

definition selector :: "pydict \<Rightarrow> pyval \<Rightarrow> triple list \<Rightarrow> error + bool" where
  "selector el mode operators =
     selector_loop el mode operators (if mode = PyStr ''or'' then False else True)"

section \<open>Texts: \<^verbatim>\<open>in\<close> and \<^verbatim>\<open>split\<close>\<close>

text \<open>\<^verbatim>\<open>sub in s\<close> on texts.\<close>

fun contains :: "string \<Rightarrow> string \<Rightarrow> bool" where
  "contains sub [] = (sub = [])"
| "contains sub (c # cs) = (take (length sub) (c # cs) = sub \<or> contains sub cs)"

text \<open>
  \<^verbatim>\<open>s.split(sep)\<close> for a separator that is not empty: the text is cut at each
  occurrence of the separator, found from the left and not overlapping. \<open>cur\<close> is
  the piece read so far.
\<close>

fun split_from :: "string \<Rightarrow> string \<Rightarrow> string \<Rightarrow> string list" where
  "split_from sep cur [] = [cur]"
| "split_from sep cur (c # cs) =
     (if take (length sep) (c # cs) = sep
      then cur # split_from sep [] (drop (length sep - 1) cs)
      else split_from sep (cur @ [c]) cs)"

definition split :: "string \<Rightarrow> string \<Rightarrow> string list" where
  "split sep s = split_from sep [] s"

section \<open>\<^verbatim>\<open>operators_reader\<close>\<close>

text \<open>
  The keyword arguments are a dictionary in insertion order: a list of pairs whose
  keys are distinct. The loop of \<^verbatim>\<open>operators_reader\<close> visits the keys in that
  order and reads \<^verbatim>\<open>kwargs[kw]\<close>, the value paired with the key.
\<close>

type_synonym kwargs = "(string \<times> pyval) list"

definition valid_operators :: "string list" where
  "valid_operators = [''lt'', ''le'', ''eq'', ''ne'', ''ge'', ''gt'']"

text \<open>
  Lines 49 to 56: the key is split at \<^verbatim>\<open>'__'\<close> into the field and the operator
  name. Unpacking into two names raises \<^verbatim>\<open>ValueError\<close> unless the split has
  exactly two pieces.
\<close>

definition parse_key :: "string \<Rightarrow> error + (string \<times> string)" where
  "parse_key kw =
     (if contains ''__'' kw then
        (case split ''__'' kw of
           [field, op] \<Rightarrow>
             if op \<notin> set valid_operators then Inl InvalidOperator else Inr (field, op)
         | _ \<Rightarrow> Inl ValueError)
      else Inr (kw, ''eq''))"

text \<open>\<^verbatim>\<open>getattr(operator, op)\<close> for the six names that pass the check.\<close>

definition getattr_operator :: "string \<Rightarrow> error + comparator" where
  "getattr_operator op =
     (if op = ''lt'' then Inr LT
      else if op = ''le'' then Inr LE
      else if op = ''eq'' then Inr EQ
      else if op = ''ne'' then Inr NE
      else if op = ''ge'' then Inr GE
      else if op = ''gt'' then Inr GT
      else Inl AttributeError)"

fun operators_loop :: "kwargs \<Rightarrow> triple list \<Rightarrow> error + triple list" where
  "operators_loop [] operators = Inr operators"
| "operators_loop ((kw, v) # rest) operators =
     (case parse_key kw of
        Inl e \<Rightarrow> Inl e
      | Inr (field, op) \<Rightarrow>
          (case getattr_operator op of
             Inl e \<Rightarrow> Inl e
           | Inr operator \<Rightarrow> operators_loop rest (operators @ [(operator, field, v)])))"

definition operators_reader :: "kwargs \<Rightarrow> error + triple list" where
  "operators_reader kwargs = operators_loop kwargs []"

section \<open>\<^verbatim>\<open>select\<close>\<close>

text \<open>
  \<^verbatim>\<open>kwargs.pop('mode', 'or')\<close>: the value of the key \<^verbatim>\<open>mode\<close>, or
  \<^verbatim>\<open>'or'\<close> when there is none, and the dictionary without that key.
\<close>

definition pop_mode :: "kwargs \<Rightarrow> pyval \<times> kwargs" where
  "pop_mode kwargs =
     (case map_of kwargs ''mode'' of None \<Rightarrow> PyStr ''or'' | Some m \<Rightarrow> m,
      filter (\<lambda>kv. fst kv \<noteq> ''mode'') kwargs)"

fun select_loop :: "pydict list \<Rightarrow> pyval \<Rightarrow> triple list \<Rightarrow> pydict list \<Rightarrow> error + pydict list" where
  "select_loop [] mode operators elements = Inr elements"
| "select_loop (el # it) mode operators elements =
     (case selector el mode operators of
        Inl e \<Rightarrow> Inl e
      | Inr b \<Rightarrow> select_loop it mode operators (if b then elements @ [el] else elements))"

text \<open>
  \<^verbatim>\<open>select(it, **kwargs)\<close>, called with the records as its positional argument
  and the query specification as keywords. The name \<^verbatim>\<open>it\<close> is taken by the
  parameter: a keyword \<^verbatim>\<open>it\<close> makes the call raise \<^verbatim>\<open>TypeError\<close> (multiple
  values for the argument) before the body runs. Every other keyword is collected
  into \<^verbatim>\<open>kwargs\<close>.
\<close>

definition select :: "pydict list \<Rightarrow> kwargs \<Rightarrow> error + pydict list" where
  "select it kwargs =
     (if ''it'' \<in> set (map fst kwargs) then Inl TypeError
      else
        (case pop_mode kwargs of
           (mode, rest) \<Rightarrow>
             (case operators_reader rest of
                Inl e \<Rightarrow> Inl e
              | Inr operators \<Rightarrow> select_loop it mode operators [])))"

section \<open>The record source\<close>

definition row_splitter :: "string \<Rightarrow> string list" where
  "row_splitter row = split '','' (butlast row)"

text \<open>
  \<^verbatim>\<open>dict(zip(columns, cells))\<close>: the pairs up to the shorter list, a later pair
  replacing an earlier one with the same key. The cells are texts.
\<close>

definition dict_zip :: "string list \<Rightarrow> string list \<Rightarrow> pydict" where
  "dict_zip columns cells =
     foldl (\<lambda>d kv. d(fst kv \<mapsto> PyStr (snd kv))) Map.empty (zip columns cells)"

text \<open>
  \<^verbatim>\<open>generate_games\<close> on the lines that \<^verbatim>\<open>csv_reader\<close> has read from the file.
  \<^verbatim>\<open>pop(0)\<close> raises \<^verbatim>\<open>IndexError\<close> when there is no line.
\<close>

definition generate_games :: "string list \<Rightarrow> error + pydict list" where
  "generate_games csv_gen =
     (case csv_gen of
        [] \<Rightarrow> Inl IndexError
      | header # rows \<Rightarrow>
          Inr (map (\<lambda>row. dict_zip (row_splitter header) (row_splitter row)) rows))"

section \<open>The aggregator\<close>

text \<open>
  \<^verbatim>\<open>int(s)\<close> on a text, in base ten: white space around the number is dropped,
  one sign may lead, and the digits may be grouped by single underscores. The white
  space is what the interpreter accepts there for code points below 256: tab to
  carriage return, the blank, and the two characters 133 and 160. The length limit an
  interpreter may put on the digits is not modelled.
\<close>

definition is_space :: "char \<Rightarrow> bool" where
  "is_space c = ((of_char c :: nat) \<in> set [9, 10, 11, 12, 13, 32, 133, 160])"

definition is_digit :: "char \<Rightarrow> bool" where
  "is_digit c = (48 \<le> (of_char c :: nat) \<and> (of_char c :: nat) \<le> 57)"

fun digits_ok :: "string \<Rightarrow> bool" where
  "digits_ok [] = False"
| "digits_ok [c] = is_digit c"
| "digits_ok (c # d # cs) =
     (is_digit c \<and> (if d = CHR ''_'' then digits_ok cs else digits_ok (d # cs)))"

definition digits_value :: "string \<Rightarrow> int" where
  "digits_value ds = foldl (\<lambda>n c. 10 * n + (int (of_char c) - 48)) 0 ds"

definition int_of_str :: "string \<Rightarrow> int option" where
  "int_of_str s =
     (let t = rev (dropWhile is_space (rev (dropWhile is_space s)));
          neg = (t \<noteq> [] \<and> hd t = CHR ''-'');
          body = (if t \<noteq> [] \<and> (hd t = CHR ''-'' \<or> hd t = CHR ''+'') then tl t else t)
      in if digits_ok body
         then Some ((if neg then - 1 else 1) * digits_value (filter (\<lambda>c. c \<noteq> CHR ''_'') body))
         else None)"

text \<open>
  \<^verbatim>\<open>int(x)\<close>: an integer is returned as it is, a text is parsed or raises
  \<^verbatim>\<open>ValueError\<close>, and \<^verbatim>\<open>None\<close> raises \<^verbatim>\<open>TypeError\<close>.
\<close>

fun py_int :: "pyval \<Rightarrow> error + int" where
  "py_int (PyInt n) = Inr n"
| "py_int (PyStr s) = (case int_of_str s of None \<Rightarrow> Inl ValueError | Some n \<Rightarrow> Inr n)"
| "py_int PyNone = Inl TypeError"

definition team_goals :: "pydict \<Rightarrow> string \<Rightarrow> error + int" where
  "team_goals game team_name =
     (case dict_getitem game ''home_team'' of
        Inl e \<Rightarrow> Inl e
      | Inr home \<Rightarrow>
          if home = PyStr team_name then
            (case dict_getitem game ''home_score'' of Inl e \<Rightarrow> Inl e | Inr s \<Rightarrow> py_int s)
          else
            (case dict_getitem game ''away_score'' of Inl e \<Rightarrow> Inl e | Inr s \<Rightarrow> py_int s))"

text \<open>
  \<^verbatim>\<open>reduce(f, games, res)\<close> for a step that may raise: the games are folded from
  the left, and the first exception ends the fold.
\<close>

fun reduce :: "('a \<Rightarrow> 'b \<Rightarrow> error + 'a) \<Rightarrow> 'b list \<Rightarrow> 'a \<Rightarrow> error + 'a" where
  "reduce f [] res = Inr res"
| "reduce f (game # games) res =
     (case f res game of Inl e \<Rightarrow> Inl e | Inr res' \<Rightarrow> reduce f games res')"

definition sum_goals :: "pydict list \<Rightarrow> string \<Rightarrow> error + int" where
  "sum_goals games team_name =
     reduce (\<lambda>res game. case team_goals game team_name of
                           Inl e \<Rightarrow> Inl e
                         | Inr n \<Rightarrow> Inr (res + n))
       games 0"

section \<open>What the selector computes\<close>

text \<open>
  The results of the comparisons of a record, in the order of the triples, or the
  first exception among them. This function is not in the source: it names the list
  that the selector folds, for the statements below.
\<close>

fun comparison_results :: "pydict \<Rightarrow> triple list \<Rightarrow> error + bool list" where
  "comparison_results el [] = Inr []"
| "comparison_results el ((op, k, v) # operators) =
     (case apply_op op (dict_get el k) v of
        Inl e \<Rightarrow> Inl e
      | Inr r \<Rightarrow>
          (case comparison_results el operators of
             Inl e \<Rightarrow> Inl e
           | Inr rs \<Rightarrow> Inr (r # rs)))"

section \<open>Properties of the selector\<close>

lemma foldr_or_acc: "foldr (\<or>) rs (r \<or> result) = (r \<or> foldr (\<or>) rs result)"
  by (induction rs) auto

lemma foldr_and_acc: "foldr (\<and>) rs (r \<and> result) = (r \<and> foldr (\<and>) rs result)"
  by (induction rs) auto

lemma selector_loop_or:
  "selector_loop el (PyStr ''or'') operators result =
     (case comparison_results el operators of
        Inl e \<Rightarrow> Inl e
      | Inr rs \<Rightarrow> Inr (foldr (\<or>) rs result))"
proof (induction operators arbitrary: result)
  case Nil
  show ?case by simp
next
  case (Cons t operators)
  obtain op k v where t: "t = (op, k, v)" by (cases t)
  show ?case
    unfolding t by (simp add: Cons.IH foldr_or_acc split: sum.splits)
qed

lemma selector_loop_and:
  "mode \<noteq> PyStr ''or'' \<Longrightarrow>
   selector_loop el mode operators result =
     (case comparison_results el operators of
        Inl e \<Rightarrow> Inl e
      | Inr rs \<Rightarrow> Inr (foldr (\<and>) rs result))"
proof (induction operators arbitrary: result)
  case Nil
  show ?case by simp
next
  case (Cons t operators)
  obtain op k v where t: "t = (op, k, v)" by (cases t)
  show ?case
    unfolding t using Cons.prems by (simp add: Cons.IH foldr_and_acc split: sum.splits)
qed

lemma select_loop_total:
  "\<forall>el \<in> set it. \<exists>b. selector el mode operators = Inr b \<Longrightarrow>
   select_loop it mode operators elements =
     Inr (elements @ filter (\<lambda>el. selector el mode operators = Inr True) it)"
  by (induction it arbitrary: elements) auto

lemma select_loop_Inr:
  "select_loop it mode operators elements = Inr out \<Longrightarrow>
   out = elements @ filter (\<lambda>el. selector el mode operators = Inr True) it"
proof (induction it arbitrary: elements)
  case Nil
  then show ?case by simp
next
  case (Cons el it)
  show ?case
  proof (cases "selector el mode operators")
    case (Inl e)
    with Cons.prems show ?thesis by simp
  next
    case (Inr b)
    with Cons.prems
    have "select_loop it mode operators (if b then elements @ [el] else elements) = Inr out"
      by simp
    from Cons.IH [OF this] Inr show ?thesis by (cases b) simp_all
  qed
qed

lemma selector_Nil: "selector el mode [] = Inr (mode \<noteq> PyStr ''or'')"
  by (simp add: selector_def)

lemma select_loop_Nil:
  "select_loop it mode [] [] = Inr (if mode = PyStr ''or'' then [] else it)"
  using select_loop_total [of it mode "[]" "[]"] by (simp add: selector_Nil)

lemma operators_reader_Nil: "operators_reader [] = Inr []"
  by (simp add: operators_reader_def)

text \<open>
  C1, as stated, fails: with no comparison triple and the mode \<^verbatim>\<open>'any'\<close> the
  selector is true of every record, and \<^verbatim>\<open>select\<close> returns the whole input. The
  only mode value that starts the accumulator at false is \<^verbatim>\<open>'or'\<close>.
\<close>

theorem select_no_triples_any_counterexample:
  "selector [''home_team'' \<mapsto> PyStr ''Italy''] (PyStr ''any'') [] = Inr True
   \<and> select [[''home_team'' \<mapsto> PyStr ''Italy'']] [(''mode'', PyStr ''any'')]
       = Inr [[''home_team'' \<mapsto> PyStr ''Italy'']]"
  by (simp add: select_def pop_mode_def operators_reader_def selector_def)

text \<open>
  C1, amended. With no comparison triple, \<^verbatim>\<open>select\<close> returns no record when the
  mode is \<^verbatim>\<open>'or'\<close>, which is also the mode when no mode key is given, and returns
  every record, unchanged and in order, for every other mode value: for
  \<^verbatim>\<open>'all'\<close>, and for \<^verbatim>\<open>'any'\<close> too.
\<close>

theorem select_no_triples:
  "select it [] = Inr []
   \<and> select it [(''mode'', PyStr ''or'')] = Inr []
   \<and> select it [(''mode'', PyStr ''all'')] = Inr it
   \<and> select it [(''mode'', PyStr ''any'')] = Inr it
   \<and> (mode \<noteq> PyStr ''or'' \<longrightarrow> select it [(''mode'', mode)] = Inr it)
   \<and> select_loop it mode [] [] = Inr (if mode = PyStr ''or'' then [] else it)"
  by (simp add: select_def pop_mode_def operators_reader_Nil select_loop_Nil)

theorem select_no_triples_witness:
  "PyStr ''and'' \<noteq> PyStr ''or''
   \<and> select [Map.empty, [''home_team'' \<mapsto> PyStr ''Italy'']] [] = Inr []
   \<and> select [Map.empty, [''home_team'' \<mapsto> PyStr ''Italy'']] [(''mode'', PyStr ''and'')]
       = Inr [Map.empty, [''home_team'' \<mapsto> PyStr ''Italy'']]"
  using select_no_triples
    [of "[Map.empty, [''home_team'' \<mapsto> PyStr ''Italy'']]" "PyStr ''and''"]
  by simp

text \<open>
  C2. For every record, every list of triples and every mode value other than the
  text \<^verbatim>\<open>'or'\<close> (so also for \<^verbatim>\<open>'any'\<close>, \<^verbatim>\<open>'all'\<close> and \<^verbatim>\<open>'and'\<close>) the
  selector returns the conjunction of the comparison results; for \<^verbatim>\<open>'or'\<close> it
  returns their disjunction; and a call of \<^verbatim>\<open>select\<close> without a mode key is a
  call with the mode \<^verbatim>\<open>'or'\<close>. In both modes an exception of a comparison is the
  outcome.
\<close>

theorem selector_mode_combination:
  "(mode \<noteq> PyStr ''or'' \<longrightarrow>
      selector el mode operators =
        (case comparison_results el operators of
           Inl e \<Rightarrow> Inl e
         | Inr rs \<Rightarrow> Inr (foldr (\<and>) rs True)))
   \<and> selector el (PyStr ''or'') operators =
        (case comparison_results el operators of
           Inl e \<Rightarrow> Inl e
         | Inr rs \<Rightarrow> Inr (foldr (\<or>) rs False))
   \<and> (map_of kwargs ''mode'' = None \<longrightarrow>
        select it kwargs = select it ((''mode'', PyStr ''or'') # kwargs))"
proof (intro conjI impI)
  assume "mode \<noteq> PyStr ''or''"
  then show "selector el mode operators =
      (case comparison_results el operators of
         Inl e \<Rightarrow> Inl e
       | Inr rs \<Rightarrow> Inr (foldr (\<and>) rs True))"
    by (simp add: selector_def selector_loop_and)
next
  show "selector el (PyStr ''or'') operators =
      (case comparison_results el operators of
         Inl e \<Rightarrow> Inl e
       | Inr rs \<Rightarrow> Inr (foldr (\<or>) rs False))"
    by (simp add: selector_def selector_loop_or)
next
  assume "map_of kwargs ''mode'' = None"
  then show "select it kwargs = select it ((''mode'', PyStr ''or'') # kwargs)"
    by (simp add: select_def pop_mode_def)
qed

theorem selector_mode_combination_witness:
  "PyStr ''any'' \<noteq> PyStr ''or''
   \<and> map_of [(''a'', PyInt 1)] ''mode'' = None
   \<and> selector [''a'' \<mapsto> PyInt 1] (PyStr ''any'') [(EQ, ''a'', PyInt 1), (EQ, ''a'', PyInt 2)]
       = Inr False
   \<and> selector [''a'' \<mapsto> PyInt 1] (PyStr ''or'') [(EQ, ''a'', PyInt 1), (EQ, ''a'', PyInt 2)]
       = Inr True
   \<and> select [[''a'' \<mapsto> PyInt 1]] [(''a'', PyInt 1)]
       = select [[''a'' \<mapsto> PyInt 1]] [(''mode'', PyStr ''or''), (''a'', PyInt 1)]"
  using selector_mode_combination
    [of "PyStr ''any''" "[''a'' \<mapsto> PyInt 1]" "[(EQ, ''a'', PyInt 1), (EQ, ''a'', PyInt 2)]"
        "[(''a'', PyInt 1)]" "[[''a'' \<mapsto> PyInt 1]]"]
  by (simp add: dict_get_def)

text \<open>
  C7. Whenever the selector returns, its output is exactly the records of the input
  for which the combined predicate is true, in the order of the input; and it returns
  whenever no comparison raises. This holds for the loop of \<^verbatim>\<open>select\<close> on any
  mode and triples, and so for \<^verbatim>\<open>select\<close> on the mode and the triples it
  compiles from its keyword arguments.
\<close>

theorem select_is_filter:
  "(select_loop it mode operators [] = Inr out \<longrightarrow>
      out = filter (\<lambda>el. selector el mode operators = Inr True) it)
   \<and> ((\<forall>el \<in> set it. \<exists>b. selector el mode operators = Inr b) \<longrightarrow>
      select_loop it mode operators [] =
        Inr (filter (\<lambda>el. selector el mode operators = Inr True) it))
   \<and> (select it kwargs = Inr out \<longrightarrow>
      (\<exists>ops. operators_reader (snd (pop_mode kwargs)) = Inr ops
         \<and> out = filter (\<lambda>el. selector el (fst (pop_mode kwargs)) ops = Inr True) it))"
proof (intro conjI impI)
  assume "select_loop it mode operators [] = Inr out"
  from select_loop_Inr [OF this]
  show "out = filter (\<lambda>el. selector el mode operators = Inr True) it"
    by simp
next
  assume "\<forall>el \<in> set it. \<exists>b. selector el mode operators = Inr b"
  from select_loop_total [OF this, of "[]"]
  show "select_loop it mode operators [] =
      Inr (filter (\<lambda>el. selector el mode operators = Inr True) it)"
    by simp
next
  assume sel: "select it kwargs = Inr out"
  obtain m rest where pm: "pop_mode kwargs = (m, rest)" by (cases "pop_mode kwargs")
  from sel pm obtain ops where ops: "operators_reader rest = Inr ops"
    and loop: "select_loop it m ops [] = Inr out"
    by (auto simp: select_def split: sum.splits if_splits)
  from select_loop_Inr [OF loop] ops pm
  show "\<exists>ops. operators_reader (snd (pop_mode kwargs)) = Inr ops
        \<and> out = filter (\<lambda>el. selector el (fst (pop_mode kwargs)) ops = Inr True) it"
    by simp
qed

theorem select_is_filter_witness:
  "select_loop [[''home_team'' \<mapsto> PyStr ''Italy''], [''home_team'' \<mapsto> PyStr ''France'']]
      (PyStr ''or'') [(EQ, ''home_team'', PyStr ''Italy'')] []
     = Inr [[''home_team'' \<mapsto> PyStr ''Italy'']]
   \<and> selector [''home_team'' \<mapsto> PyStr ''Italy''] (PyStr ''or'')
         [(EQ, ''home_team'', PyStr ''Italy'')] = Inr True
   \<and> selector [''home_team'' \<mapsto> PyStr ''France''] (PyStr ''or'')
         [(EQ, ''home_team'', PyStr ''Italy'')] = Inr False
   \<and> select [[''home_team'' \<mapsto> PyStr ''Italy''], [''home_team'' \<mapsto> PyStr ''France'']]
         [(''home_team__eq'', PyStr ''Italy'')]
     = Inr [[''home_team'' \<mapsto> PyStr ''Italy'']]
   \<and> [[''home_team'' \<mapsto> PyStr ''Italy'']]
     = filter (\<lambda>el. selector el (PyStr ''or'') [(EQ, ''home_team'', PyStr ''Italy'')] = Inr True)
         [[''home_team'' \<mapsto> PyStr ''Italy''], [''home_team'' \<mapsto> PyStr ''France'']]"
  using select_is_filter
    [of "[[''home_team'' \<mapsto> PyStr ''Italy''], [''home_team'' \<mapsto> PyStr ''France'']]"
        "PyStr ''or''" "[(EQ, ''home_team'', PyStr ''Italy'')]"
        "[[''home_team'' \<mapsto> PyStr ''Italy'']]" "[(''home_team__eq'', PyStr ''Italy'')]"]
  by (simp add: selector_def dict_get_def select_def pop_mode_def operators_reader_def
      parse_key_def split_def valid_operators_def getattr_operator_def)

section \<open>Missing fields\<close>

lemma apply_op_None:
  "apply_op op PyNone v =
     (if op = EQ then Inr (v = PyNone) else if op = NE then Inr (v \<noteq> PyNone) else Inl TypeError)"
  by (cases op) auto

lemma comparison_results_append:
  "comparison_results el (pre @ post) =
     (case comparison_results el pre of
        Inl e \<Rightarrow> Inl e
      | Inr rs \<Rightarrow>
          (case comparison_results el post of
             Inl e \<Rightarrow> Inl e
           | Inr rs' \<Rightarrow> Inr (rs @ rs')))"
proof (induction pre)
  case Nil
  show ?case by (simp split: sum.splits)
next
  case (Cons t pre)
  obtain op k v where t: "t = (op, k, v)" by (cases t)
  show ?case unfolding t by (simp add: Cons.IH split: sum.splits)
qed

lemma selector_results:
  "selector el mode operators =
     (case comparison_results el operators of
        Inl e \<Rightarrow> Inl e
      | Inr rs \<Rightarrow> Inr (if mode = PyStr ''or'' then foldr (\<or>) rs False else foldr (\<and>) rs True))"
  by (cases "mode = PyStr ''or''")
     (simp_all add: selector_def selector_loop_or selector_loop_and split: sum.splits)

text \<open>
  C4, as stated, fails: a triple with one of the four ordering comparators on a field
  the record does not have raises \<^verbatim>\<open>TypeError\<close>, in either mode.
\<close>

theorem missing_field_raises_counterexample:
  "(Map.empty :: pydict) ''score'' = None
   \<and> selector Map.empty (PyStr ''or'') [(LT, ''score'', PyInt 1)] = Inl TypeError
   \<and> selector Map.empty (PyStr ''all'') [(GE, ''score'', PyStr ''1'')] = Inl TypeError"
  by (simp add: selector_def dict_get_def)

text \<open>
  C4, amended. For a triple whose field is absent from the record, the lookup does
  not raise and the comparator is applied with \<^verbatim>\<open>None\<close> on the left and the
  target on the right, for all six comparators. With \<open>eq\<close> and \<open>ne\<close> the
  comparison returns: \<open>eq\<close> is true exactly when the target is \<^verbatim>\<open>None\<close>, and
  \<open>ne\<close> is its negation. With \<open>lt\<close>, \<open>le\<close>, \<open>ge\<close> and \<open>gt\<close> the comparison raises
  \<^verbatim>\<open>TypeError\<close>, whatever the target, and so does the selector on every list of
  triples that holds such a triple.
\<close>

theorem missing_field_comparison:
  assumes "el k = None"
  shows "dict_get el k = PyNone
    \<and> selector el mode [(op, k, v)] = apply_op op PyNone v
    \<and> apply_op EQ PyNone v = Inr (v = PyNone)
    \<and> apply_op NE PyNone v = Inr (v \<noteq> PyNone)
    \<and> (op \<in> {LT, LE, GE, GT} \<longrightarrow>
         apply_op op PyNone v = Inl TypeError
         \<and> (\<exists>e. selector el mode (pre @ (op, k, v) # post) = Inl e))"
proof -
  from assms have get: "dict_get el k = PyNone" by (simp add: dict_get_def)
  have one: "selector el mode [(op, k, v)] = apply_op op PyNone v"
    by (cases "apply_op op PyNone v") (auto simp: selector_def get)
  have raise: "\<exists>e. selector el mode (pre @ (op, k, v) # post) = Inl e"
    if "op \<in> {LT, LE, GE, GT}"
  proof -
    from that have "apply_op op PyNone v = Inl TypeError" by (auto simp: apply_op_None)
    then have "\<exists>e. comparison_results el (pre @ (op, k, v) # post) = Inl e"
      by (simp add: comparison_results_append get split: sum.splits)
    then show ?thesis by (auto simp: selector_results)
  qed
  show ?thesis using get one raise by (auto simp: apply_op_None)
qed

theorem missing_field_comparison_witness:
  "(Map.empty :: pydict) ''score'' = None
   \<and> LT \<in> {LT, LE, GE, GT}
   \<and> dict_get Map.empty ''score'' = PyNone
   \<and> selector Map.empty (PyStr ''or'') [(EQ, ''score'', PyInt 1)] = Inr False
   \<and> selector Map.empty (PyStr ''or'') [(NE, ''score'', PyInt 1)] = Inr True
   \<and> apply_op LT PyNone (PyInt 1) = Inl TypeError"
  using missing_field_comparison [of Map.empty "''score''" "PyStr ''or''" LT "PyInt 1" "[]" "[]"]
    missing_field_comparison [of Map.empty "''score''" "PyStr ''or''" EQ "PyInt 1" "[]" "[]"]
    missing_field_comparison [of Map.empty "''score''" "PyStr ''or''" NE "PyInt 1" "[]" "[]"]
  by simp

section \<open>The record source and the aggregator on the examples\<close>

text \<open>
  C8. The lines of the example give the record of the example; and
  \<^verbatim>\<open>row_splitter\<close> drops exactly the last character of a line, whichever it is,
  before it splits at the commas.
\<close>

theorem parse_example_line:
  "generate_games [''home_team,away_team,home_score,away_score\<newline>'', ''Italy,France,2,1\<newline>'']
     = Inr [[''home_team'' \<mapsto> PyStr ''Italy'', ''away_team'' \<mapsto> PyStr ''France'',
             ''home_score'' \<mapsto> PyStr ''2'', ''away_score'' \<mapsto> PyStr ''1'']]
   \<and> row_splitter (line @ [c]) = split '','' line
   \<and> row_splitter ''Italy,France,2,1\<newline>'' = [''Italy'', ''France'', ''2'', ''1'']"
  by (simp add: generate_games_def row_splitter_def split_def dict_zip_def)

text \<open>
  C9. On the two records of the example, \<^verbatim>\<open>select\<close> with
  \<^verbatim>\<open>mode="or", home_team__eq="Italy", away_team__eq="Italy"\<close> returns both
  records, and the goals of Italy over them sum to 5.
\<close>

theorem select_and_sum_example:
  "select
     [[''home_team'' \<mapsto> PyStr ''Italy'', ''away_team'' \<mapsto> PyStr ''France'',
       ''home_score'' \<mapsto> PyStr ''2'', ''away_score'' \<mapsto> PyStr ''1''],
      [''home_team'' \<mapsto> PyStr ''France'', ''away_team'' \<mapsto> PyStr ''Italy'',
       ''home_score'' \<mapsto> PyStr ''0'', ''away_score'' \<mapsto> PyStr ''3'']]
     [(''mode'', PyStr ''or''), (''home_team__eq'', PyStr ''Italy''),
      (''away_team__eq'', PyStr ''Italy'')]
   = Inr
     [[''home_team'' \<mapsto> PyStr ''Italy'', ''away_team'' \<mapsto> PyStr ''France'',
       ''home_score'' \<mapsto> PyStr ''2'', ''away_score'' \<mapsto> PyStr ''1''],
      [''home_team'' \<mapsto> PyStr ''France'', ''away_team'' \<mapsto> PyStr ''Italy'',
       ''home_score'' \<mapsto> PyStr ''0'', ''away_score'' \<mapsto> PyStr ''3'']]
   \<and> sum_goals
     [[''home_team'' \<mapsto> PyStr ''Italy'', ''away_team'' \<mapsto> PyStr ''France'',
       ''home_score'' \<mapsto> PyStr ''2'', ''away_score'' \<mapsto> PyStr ''1''],
      [''home_team'' \<mapsto> PyStr ''France'', ''away_team'' \<mapsto> PyStr ''Italy'',
       ''home_score'' \<mapsto> PyStr ''0'', ''away_score'' \<mapsto> PyStr ''3'']]
     ''Italy'' = Inr 5"
  by (simp add: select_def pop_mode_def operators_reader_def parse_key_def split_def
      valid_operators_def getattr_operator_def selector_def dict_get_def
      sum_goals_def team_goals_def dict_getitem_def int_of_str_def is_space_def
      is_digit_def digits_value_def)

section \<open>Properties of the aggregator\<close>

lemma reduce_append:
  "reduce f (xs @ ys) res =
     (case reduce f xs res of Inl e \<Rightarrow> Inl e | Inr res' \<Rightarrow> reduce f ys res')"
  by (induction xs arbitrary: res) (auto split: sum.splits)

text \<open>
  C10. For a record whose \<open>home_team\<close> differs from the team name,
  \<^verbatim>\<open>team_goals\<close> is \<^verbatim>\<open>int(game['away_score'])\<close>; nothing is asked of
  \<open>away_team\<close>. So when the away score is there and parses to \<open>n\<close>, the goals of
  the record are \<open>n\<close>, and appending the record to a sequence adds \<open>n\<close> to its sum,
  also when the team is in neither field.
\<close>

theorem team_goals_away_score:
  assumes "game ''home_team'' = Some home" and "home \<noteq> PyStr team_name"
  shows "team_goals game team_name =
      (case dict_getitem game ''away_score'' of Inl e \<Rightarrow> Inl e | Inr s \<Rightarrow> py_int s)
    \<and> (game ''away_score'' = Some s \<and> py_int s = Inr n \<longrightarrow>
         team_goals game team_name = Inr n
         \<and> (sum_goals games team_name = Inr acc \<longrightarrow>
              sum_goals (games @ [game]) team_name = Inr (acc + n)))"
  using assms
  by (simp add: team_goals_def dict_getitem_def sum_goals_def reduce_append)

theorem team_goals_away_score_witness:
  "[''home_team'' \<mapsto> PyStr ''France'', ''away_team'' \<mapsto> PyStr ''Spain'',
    ''home_score'' \<mapsto> PyStr ''0'', ''away_score'' \<mapsto> PyStr ''3''] ''home_team''
     = Some (PyStr ''France'')
   \<and> PyStr ''France'' \<noteq> PyStr ''Italy''
   \<and> team_goals [''home_team'' \<mapsto> PyStr ''France'', ''away_team'' \<mapsto> PyStr ''Spain'',
        ''home_score'' \<mapsto> PyStr ''0'', ''away_score'' \<mapsto> PyStr ''3''] ''Italy'' = Inr 3
   \<and> sum_goals [] ''Italy'' = Inr 0
   \<and> sum_goals ([] @ [[''home_team'' \<mapsto> PyStr ''France'', ''away_team'' \<mapsto> PyStr ''Spain'',
        ''home_score'' \<mapsto> PyStr ''0'', ''away_score'' \<mapsto> PyStr ''3'']]) ''Italy'' = Inr (0 + 3)"
  using team_goals_away_score
    [of "[''home_team'' \<mapsto> PyStr ''France'', ''away_team'' \<mapsto> PyStr ''Spain'',
          ''home_score'' \<mapsto> PyStr ''0'', ''away_score'' \<mapsto> PyStr ''3'']"
        "PyStr ''France''" "''Italy''" "PyStr ''3''" 3 "[]" 0]
  by (simp add: sum_goals_def team_goals_def dict_getitem_def int_of_str_def is_space_def
      is_digit_def digits_value_def)

section \<open>Properties of the predicate compiler\<close>

lemma split_from_no_sep:
  "\<not> contains sep s \<Longrightarrow> split_from sep cur s = [cur @ s]"
  by (induction s arbitrary: cur) auto

lemma split_from_not_Nil: "split_from sep cur s \<noteq> []"
  by (induction sep cur s rule: split_from.induct) auto

lemma split_from_sep:
  "contains sep s \<Longrightarrow> sep \<noteq> [] \<Longrightarrow> 2 \<le> length (split_from sep cur s)"
proof (induction s arbitrary: cur)
  case Nil
  then show ?case by simp
next
  case (Cons c cs)
  show ?case
  proof (cases "take (length sep) (c # cs) = sep")
    case True
    have "split_from sep [] (drop (length sep - 1) cs) \<noteq> []" by (rule split_from_not_Nil)
    then have "1 \<le> length (split_from sep [] (drop (length sep - 1) cs))"
      by (cases "split_from sep [] (drop (length sep - 1) cs)") simp_all
    with True show ?thesis by simp
  next
    case False
    with Cons.prems have "contains sep cs" by simp
    from Cons.IH [OF this Cons.prems(2)] False show ?thesis by simp
  qed
qed

lemma split_two_contains:
  "split sep s = [field, op] \<Longrightarrow> contains sep s"
  using split_from_no_sep [of sep s "[]"] by (auto simp: split_def)

lemma getattr_operator_valid:
  "op \<in> set valid_operators \<Longrightarrow> \<exists>f. getattr_operator op = Inr f"
  by (auto simp: valid_operators_def getattr_operator_def)

lemma parse_key_no_sep: "\<not> contains ''__'' kw \<Longrightarrow> parse_key kw = Inr (kw, ''eq'')"
  by (simp add: parse_key_def)

lemma parse_key_invalid:
  "split ''__'' kw = [field, op] \<Longrightarrow> op \<notin> set valid_operators \<Longrightarrow>
   parse_key kw = Inl InvalidOperator"
  using split_two_contains [of "''__''" kw field op] by (simp add: parse_key_def)

lemma parse_key_cases:
  "parse_key kw = Inl InvalidOperator \<or> parse_key kw = Inl ValueError
   \<or> (\<exists>field op. parse_key kw = Inr (field, op) \<and> op \<in> set valid_operators)"
  by (auto simp: parse_key_def valid_operators_def split: list.splits)

lemma parse_key_at_most_one_sep:
  assumes "length (split ''__'' kw) \<le> 2"
  shows "parse_key kw \<noteq> Inl ValueError"
proof (cases "contains ''__'' kw")
  case False
  then show ?thesis by (simp add: parse_key_def)
next
  case True
  from split_from_sep [OF True, of "[]"] have "2 \<le> length (split ''__'' kw)"
    by (simp add: split_def)
  with assms have "length (split ''__'' kw) = 2" by simp
  then obtain a b where "split ''__'' kw = [a, b]"
    by (cases "split ''__'' kw"; cases "tl (split ''__'' kw)") auto
  with True show ?thesis by (simp add: parse_key_def)
qed

lemma operators_loop_acc:
  "operators_loop kwargs operators =
     (case operators_loop kwargs [] of Inl e \<Rightarrow> Inl e | Inr new \<Rightarrow> Inr (operators @ new))"
proof (induction kwargs arbitrary: operators)
  case Nil
  show ?case by simp
next
  case (Cons kv kwargs)
  obtain kw v where kv: "kv = (kw, v)" by (cases kv)
  show ?case
  proof (cases "parse_key kw")
    case (Inl e)
    then show ?thesis unfolding kv by simp
  next
    case (Inr p)
    obtain field op where p: "p = (field, op)" by (cases p)
    show ?thesis
    proof (cases "getattr_operator op")
      case (Inl e)
      with Inr p show ?thesis unfolding kv by simp
    next
      case f: (Inr f)
      have a: "operators_loop kwargs (operators @ [(f, field, v)]) =
          (case operators_loop kwargs [] of
             Inl e \<Rightarrow> Inl e
           | Inr new \<Rightarrow> Inr ((operators @ [(f, field, v)]) @ new))"
        by (rule Cons.IH)
      have b: "operators_loop kwargs [(f, field, v)] =
          (case operators_loop kwargs [] of
             Inl e \<Rightarrow> Inl e
           | Inr new \<Rightarrow> Inr ([(f, field, v)] @ new))"
        by (rule Cons.IH)
      show ?thesis
        unfolding kv using Inr p f by (simp add: a b split: sum.splits)
    qed
  qed
qed

lemma operators_reader_Cons:
  "operators_reader ((kw, v) # rest) =
     (case parse_key kw of
        Inl e \<Rightarrow> Inl e
      | Inr (field, op) \<Rightarrow>
          (case getattr_operator op of
             Inl e \<Rightarrow> Inl e
           | Inr f \<Rightarrow>
               (case operators_reader rest of
                  Inl e \<Rightarrow> Inl e
                | Inr new \<Rightarrow> Inr ((f, field, v) # new))))"
  using operators_loop_acc [of rest "[(f, field, v)]" for f field]
  by (simp add: operators_reader_def split: sum.splits prod.splits)

lemma operators_reader_append:
  "operators_reader (pre @ post) =
     (case operators_reader pre of
        Inl e \<Rightarrow> Inl e
      | Inr a \<Rightarrow>
          (case operators_reader post of
             Inl e \<Rightarrow> Inl e
           | Inr b \<Rightarrow> Inr (a @ b)))"
proof (induction pre)
  case Nil
  show ?case by (simp add: operators_reader_Nil split: sum.splits)
next
  case (Cons kv pre)
  obtain kw v where kv: "kv = (kw, v)" by (cases kv)
  show ?case
    unfolding kv
    by (simp add: operators_reader_Cons Cons.IH split: sum.splits prod.splits)
qed

lemma operators_reader_length:
  "operators_reader kwargs = Inr ops \<Longrightarrow> length ops = length kwargs"
proof (induction kwargs arbitrary: ops)
  case Nil
  then show ?case by (simp add: operators_reader_Nil)
next
  case (Cons kv kwargs)
  obtain kw v where kv: "kv = (kw, v)" by (cases kv)
  from Cons.prems show ?case
    unfolding kv
    by (auto simp: operators_reader_Cons Cons.IH split: sum.splits prod.splits)
qed

lemma operators_reader_errors:
  "operators_reader kwargs = Inl e \<Longrightarrow> e = InvalidOperator \<or> e = ValueError"
proof (induction kwargs)
  case Nil
  then show ?case by (simp add: operators_reader_Nil)
next
  case (Cons kv kwargs)
  obtain kw v where kv: "kv = (kw, v)" by (cases kv)
  from Cons.prems Cons.IH parse_key_cases [of kw] show ?case
    unfolding kv
    by (auto simp: operators_reader_Cons split: sum.splits prod.splits
        dest: getattr_operator_valid)
qed

lemma operators_reader_InvalidOperator:
  "\<forall>kv \<in> set kwargs. length (split ''__'' (fst kv)) \<le> 2 \<Longrightarrow>
   operators_reader kwargs = Inl e \<Longrightarrow> e = InvalidOperator"
proof (induction kwargs)
  case Nil
  then show ?case by (simp add: operators_reader_Nil)
next
  case (Cons kv kwargs)
  obtain kw v where kv: "kv = (kw, v)" by (cases kv)
  from Cons.prems(1) kv have "parse_key kw \<noteq> Inl ValueError"
    by (simp add: parse_key_at_most_one_sep)
  with Cons.prems Cons.IH parse_key_cases [of kw] show ?case
    unfolding kv
    by (auto simp: operators_reader_Cons split: sum.splits prod.splits
        dest: getattr_operator_valid)
qed

text \<open>
  C6. A key without the separator \<^verbatim>\<open>'__'\<close> compiles to the triple of the
  comparator \<open>eq\<close>, the whole key as the field name, and the key's value: alone it
  gives exactly that triple, and among other keys it gives that triple at its own
  position whenever the compilation returns.
\<close>

theorem no_separator_compiles_to_eq:
  assumes "\<not> contains ''__'' kw"
  shows "operators_reader [(kw, v)] = Inr [(EQ, kw, v)]
    \<and> operators_reader (pre @ (kw, v) # post) =
        (case operators_reader pre of
           Inl e \<Rightarrow> Inl e
         | Inr a \<Rightarrow>
             (case operators_reader post of
                Inl e \<Rightarrow> Inl e
              | Inr b \<Rightarrow> Inr (a @ (EQ, kw, v) # b)))
    \<and> (operators_reader (pre @ (kw, v) # post) = Inr ops \<longrightarrow>
         length pre < length ops \<and> ops ! length pre = (EQ, kw, v))"
proof -
  have eq: "getattr_operator ''eq'' = Inr EQ" by (simp add: getattr_operator_def)
  have cons: "operators_reader ((kw, v) # rest) =
      (case operators_reader rest of Inl e \<Rightarrow> Inl e | Inr new \<Rightarrow> Inr ((EQ, kw, v) # new))"
    for rest
    by (simp add: operators_reader_Cons parse_key_no_sep [OF assms] eq)
  have one: "operators_reader [(kw, v)] = Inr [(EQ, kw, v)]"
    by (simp add: cons operators_reader_Nil)
  have app: "operators_reader (pre @ (kw, v) # post) =
      (case operators_reader pre of
         Inl e \<Rightarrow> Inl e
       | Inr a \<Rightarrow>
           (case operators_reader post of
              Inl e \<Rightarrow> Inl e
            | Inr b \<Rightarrow> Inr (a @ (EQ, kw, v) # b)))"
    by (simp add: operators_reader_append cons split: sum.splits)
  have nth: "length pre < length ops \<and> ops ! length pre = (EQ, kw, v)"
    if r: "operators_reader (pre @ (kw, v) # post) = Inr ops"
  proof -
    from r app obtain a b where a: "operators_reader pre = Inr a"
      and ops: "ops = a @ (EQ, kw, v) # b"
      by (auto split: sum.splits)
    from operators_reader_length [OF a] ops show ?thesis by (simp add: nth_append)
  qed
  from one app nth show ?thesis by blast
qed

theorem no_separator_compiles_to_eq_witness:
  "\<not> contains ''__'' ''tournament''
   \<and> operators_reader [(''tournament'', PyStr ''FIFA World Cup'')]
       = Inr [(EQ, ''tournament'', PyStr ''FIFA World Cup'')]
   \<and> operators_reader ([(''home_score__gt'', PyInt 1)] @ (''tournament'', PyStr ''FIFA World Cup'') # [])
       = Inr [(GT, ''home_score'', PyInt 1), (EQ, ''tournament'', PyStr ''FIFA World Cup'')]"
  using no_separator_compiles_to_eq
    [of "''tournament''" "PyStr ''FIFA World Cup''" "[(''home_score__gt'', PyInt 1)]" "[]"]
  by (simp add: operators_reader_def parse_key_def split_def valid_operators_def
      getattr_operator_def)

section \<open>Invalid comparator names\<close>

lemma operators_reader_bad_key:
  assumes "split ''__'' kw = [field, op]" and "op \<notin> set valid_operators"
  shows "operators_reader (pre @ (kw, v) # post) = Inl InvalidOperator
      \<or> operators_reader (pre @ (kw, v) # post) = Inl ValueError"
    and "\<forall>kv \<in> set pre. length (split ''__'' (fst kv)) \<le> 2 \<Longrightarrow>
      operators_reader (pre @ (kw, v) # post) = Inl InvalidOperator"
proof -
  have bad: "operators_reader ((kw, v) # post) = Inl InvalidOperator"
    by (simp add: operators_reader_Cons parse_key_invalid [OF assms])
  show "operators_reader (pre @ (kw, v) # post) = Inl InvalidOperator
      \<or> operators_reader (pre @ (kw, v) # post) = Inl ValueError"
    using operators_reader_errors [of pre]
    by (auto simp: operators_reader_append bad split: sum.splits)
  show "operators_reader (pre @ (kw, v) # post) = Inl InvalidOperator"
    if "\<forall>kv \<in> set pre. length (split ''__'' (fst kv)) \<le> 2"
    using operators_reader_InvalidOperator [OF that]
    by (auto simp: operators_reader_append bad split: sum.splits)
qed

lemma mode_no_sep: "\<not> contains ''__'' ''mode''"
  by simp

lemma it_no_sep: "\<not> contains ''__'' ''it''"
  by simp

lemma select_it_key:
  "''it'' \<in> set (map fst kwargs) \<Longrightarrow> select it kwargs = Inl TypeError"
  by (simp add: select_def)

lemma select_bad_key:
  assumes "split ''__'' kw = [field, op]" and "''it'' \<notin> set (map fst (pre @ post))"
  shows "select it (pre @ (kw, v) # post) =
    (case operators_reader (filter (\<lambda>kv. fst kv \<noteq> ''mode'') pre @ (kw, v)
            # filter (\<lambda>kv. fst kv \<noteq> ''mode'') post) of
       Inl e \<Rightarrow> Inl e
     | Inr operators \<Rightarrow>
         select_loop it (fst (pop_mode (pre @ (kw, v) # post))) operators [])"
proof -
  from split_two_contains [OF assms(1)] mode_no_sep have "kw \<noteq> ''mode''" by auto
  then have rest: "snd (pop_mode (pre @ (kw, v) # post)) =
      filter (\<lambda>kv. fst kv \<noteq> ''mode'') pre @ (kw, v) # filter (\<lambda>kv. fst kv \<noteq> ''mode'') post"
    by (simp add: pop_mode_def)
  from split_two_contains [OF assms(1)] it_no_sep have "kw \<noteq> ''it''" by auto
  with assms(2) have no_it: "''it'' \<notin> set (map fst (pre @ (kw, v) # post))" by auto
  show ?thesis
    by (cases "pop_mode (pre @ (kw, v) # post)")
       (use rest no_it in \<open>simp add: select_def split: sum.splits\<close>)
qed

text \<open>
  C3, amended. A query specification that holds a key with exactly one separator and
  a comparator name outside the six never compiles: \<^verbatim>\<open>operators_reader\<close>
  raises, so it returns no list of triples. The exception is \<open>InvalidOperator\<close>
  when no earlier key has more than one separator; otherwise it may be the
  \<^verbatim>\<open>ValueError\<close> of unpacking such an earlier key. A call of \<^verbatim>\<open>select\<close>
  with the specification raises too, whatever the records are and before it looks at
  one: \<^verbatim>\<open>TypeError\<close> when the specification has a key \<^verbatim>\<open>it\<close>, the name of
  the parameter of \<^verbatim>\<open>select\<close>, and the exception of the compilation otherwise.
\<close>

theorem invalid_operator_fails:
  assumes "split ''__'' kw = [field, op]" and "op \<notin> set valid_operators"
  shows "(operators_reader (pre @ (kw, v) # post) = Inl InvalidOperator
        \<or> operators_reader (pre @ (kw, v) # post) = Inl ValueError)
    \<and> (select it (pre @ (kw, v) # post) = Inl InvalidOperator
        \<or> select it (pre @ (kw, v) # post) = Inl ValueError
        \<or> select it (pre @ (kw, v) # post) = Inl TypeError)
    \<and> (''it'' \<in> set (map fst (pre @ post)) \<longrightarrow>
          select it (pre @ (kw, v) # post) = Inl TypeError)
    \<and> ((\<forall>kv \<in> set pre. length (split ''__'' (fst kv)) \<le> 2) \<longrightarrow>
          operators_reader (pre @ (kw, v) # post) = Inl InvalidOperator
          \<and> (''it'' \<notin> set (map fst (pre @ post)) \<longrightarrow>
               select it (pre @ (kw, v) # post) = Inl InvalidOperator))"
proof -
  let ?K = "pre @ (kw, v) # post"
  let ?pre = "filter (\<lambda>kv. fst kv \<noteq> ''mode'') pre"
  let ?post = "filter (\<lambda>kv. fst kv \<noteq> ''mode'') post"
  have compile: "operators_reader ?K = Inl InvalidOperator \<or> operators_reader ?K = Inl ValueError"
    by (rule operators_reader_bad_key(1) [OF assms])
  have with_it: "select it ?K = Inl TypeError" if "''it'' \<in> set (map fst (pre @ post))"
    using that by (intro select_it_key) auto
  have without_it: "select it ?K = Inl InvalidOperator \<or> select it ?K = Inl ValueError"
    if "''it'' \<notin> set (map fst (pre @ post))"
    using operators_reader_bad_key(1) [OF assms, of ?pre v ?post]
    by (auto simp: select_bad_key [OF assms(1) that])
  have call: "select it ?K = Inl InvalidOperator \<or> select it ?K = Inl ValueError
      \<or> select it ?K = Inl TypeError"
    using with_it without_it by blast
  have invalid: "operators_reader ?K = Inl InvalidOperator
      \<and> (''it'' \<notin> set (map fst (pre @ post)) \<longrightarrow> select it ?K = Inl InvalidOperator)"
    if pre: "\<forall>kv \<in> set pre. length (split ''__'' (fst kv)) \<le> 2"
  proof (intro conjI impI)
    show "operators_reader ?K = Inl InvalidOperator"
      by (rule operators_reader_bad_key(2) [OF assms pre])
    assume no_it: "''it'' \<notin> set (map fst (pre @ post))"
    from pre have "\<forall>kv \<in> set ?pre. length (split ''__'' (fst kv)) \<le> 2"
      by simp
    from operators_reader_bad_key(2) [OF assms this]
    show "select it ?K = Inl InvalidOperator"
      by (simp add: select_bad_key [OF assms(1) no_it])
  qed
  from compile call with_it invalid show ?thesis by blast
qed

theorem invalid_operator_fails_witness:
  "split ''__'' ''score__between'' = [''score'', ''between'']
   \<and> ''between'' \<notin> set valid_operators
   \<and> length (split ''__'' (fst (''home_team__eq'', PyStr ''Italy''))) \<le> 2
   \<and> ''it'' \<notin> set (map fst ([(''home_team__eq'', PyStr ''Italy'')] @ []))
   \<and> operators_reader ([(''home_team__eq'', PyStr ''Italy'')] @ (''score__between'', PyInt 2) # [])
       = Inl InvalidOperator
   \<and> select [Map.empty] ([(''home_team__eq'', PyStr ''Italy'')] @ (''score__between'', PyInt 2) # [])
       = Inl InvalidOperator
   \<and> ''it'' \<in> set (map fst ([(''it'', PyInt 1)] @ []))
   \<and> select [Map.empty] ([(''it'', PyInt 1)] @ (''score__between'', PyInt 2) # [])
       = Inl TypeError"
  using invalid_operator_fails
    [of "''score__between''" "''score''" "''between''"
        "[(''home_team__eq'', PyStr ''Italy'')]" "PyInt 2" "[]" "[Map.empty]"]
    invalid_operator_fails
    [of "''score__between''" "''score''" "''between''"
        "[(''it'', PyInt 1)]" "PyInt 2" "[]" "[Map.empty]"]
  by (simp add: split_def valid_operators_def)

text \<open>
  C3, as stated, fails: when a key with two separators comes before the key with the
  unknown comparator, the compilation ends with \<^verbatim>\<open>ValueError\<close>, not with
  \<open>InvalidOperator\<close>.
\<close>

theorem invalid_operator_counterexample:
  "split ''__'' ''score__between'' = [''score'', ''between'']
   \<and> ''between'' \<notin> set valid_operators
   \<and> operators_reader [(''a__b__eq'', PyInt 1), (''score__between'', PyInt 2)] = Inl ValueError
   \<and> select [Map.empty] [(''a__b__eq'', PyInt 1), (''score__between'', PyInt 2)] = Inl ValueError"
  by (simp add: select_def pop_mode_def operators_reader_def parse_key_def split_def
      valid_operators_def)

section \<open>Malformed scores\<close>

lemma team_goals_errors:
  "team_goals game team_name = Inl e \<Longrightarrow> e = KeyError \<or> e = ValueError \<or> e = TypeError"
  by (auto simp: team_goals_def dict_getitem_def split: option.splits if_splits
      elim: py_int.elims)

lemma reduce_goals_errors:
  "\<forall>g \<in> set games. team_goals g team_name \<noteq> Inl KeyError \<and> team_goals g team_name \<noteq> Inl TypeError \<Longrightarrow>
   reduce (\<lambda>res game. case team_goals game team_name of
                         Inl e \<Rightarrow> Inl e
                       | Inr n \<Rightarrow> Inr (res + n)) games res = Inl e \<Longrightarrow>
   e = ValueError"
proof (induction games arbitrary: res)
  case Nil
  then show ?case by simp
next
  case (Cons g games)
  show ?case
  proof (cases "team_goals g team_name")
    case (Inl e')
    with Cons.prems team_goals_errors [OF Inl] show ?thesis by auto
  next
    case (Inr n)
    with Cons.prems Cons.IH [of "res + n"] show ?thesis by simp
  qed
qed

text \<open>
  C5, amended. When a record of the sequence has a text that is not a valid integer
  in the score field the aggregator selects for it, \<^verbatim>\<open>sum_goals\<close> raises: it
  returns no number, so nothing is taken for zero and nothing is caught. On that
  record \<^verbatim>\<open>team_goals\<close> raises \<^verbatim>\<open>ValueError\<close>, and this is the exception of
  the sum unless an earlier record raises \<^verbatim>\<open>KeyError\<close> (it lacks
  \<open>home_team\<close> or its selected score field) or \<^verbatim>\<open>TypeError\<close> (its selected
  score is \<^verbatim>\<open>None\<close>) first.
\<close>

theorem malformed_score_fails:
  assumes "game ''home_team'' = Some home"
    and "game (if home = PyStr team_name then ''home_score'' else ''away_score'') = Some (PyStr s)"
    and "int_of_str s = None"
  shows "team_goals game team_name = Inl ValueError
    \<and> (\<exists>e. sum_goals (pre @ game # post) team_name = Inl e)
    \<and> ((\<forall>g \<in> set pre. team_goals g team_name \<noteq> Inl KeyError
                      \<and> team_goals g team_name \<noteq> Inl TypeError) \<longrightarrow>
          sum_goals (pre @ game # post) team_name = Inl ValueError)"
proof -
  let ?f = "\<lambda>res game. case team_goals game team_name of
                         Inl e \<Rightarrow> Inl e
                       | Inr n \<Rightarrow> Inr (res + n)"
  from assms have bad: "team_goals game team_name = Inl ValueError"
    by (auto simp: team_goals_def dict_getitem_def split: if_splits)
  have step: "reduce ?f (game # post) res = Inl ValueError" for res
    by (simp add: bad)
  have sum: "sum_goals (pre @ game # post) team_name =
      (case reduce ?f pre 0 of Inl e \<Rightarrow> Inl e | Inr res \<Rightarrow> Inl ValueError)"
    unfolding sum_goals_def reduce_append using step by (simp split: sum.splits)
  have ex: "\<exists>e. sum_goals (pre @ game # post) team_name = Inl e"
    unfolding sum by (cases "reduce ?f pre 0") simp_all
  have first: "sum_goals (pre @ game # post) team_name = Inl ValueError"
    if "\<forall>g \<in> set pre. team_goals g team_name \<noteq> Inl KeyError
                      \<and> team_goals g team_name \<noteq> Inl TypeError"
    unfolding sum using reduce_goals_errors [OF that, of 0]
    by (cases "reduce ?f pre 0") simp_all
  from bad ex first show ?thesis by blast
qed

theorem malformed_score_fails_witness:
  "[''home_team'' \<mapsto> PyStr ''Italy'', ''home_score'' \<mapsto> PyStr ''two''] ''home_team''
     = Some (PyStr ''Italy'')
   \<and> [''home_team'' \<mapsto> PyStr ''Italy'', ''home_score'' \<mapsto> PyStr ''two'']
       (if PyStr ''Italy'' = PyStr ''Italy'' then ''home_score'' else ''away_score'')
     = Some (PyStr ''two'')
   \<and> int_of_str ''two'' = None
   \<and> team_goals [''home_team'' \<mapsto> PyStr ''France'', ''away_score'' \<mapsto> PyStr ''1''] ''Italy''
     = Inr 1
   \<and> sum_goals ([[''home_team'' \<mapsto> PyStr ''France'', ''away_score'' \<mapsto> PyStr ''1'']]
        @ [''home_team'' \<mapsto> PyStr ''Italy'', ''home_score'' \<mapsto> PyStr ''two''] # []) ''Italy''
     = Inl ValueError"
  using malformed_score_fails
    [of "[''home_team'' \<mapsto> PyStr ''Italy'', ''home_score'' \<mapsto> PyStr ''two'']"
        "PyStr ''Italy''" "''Italy''" "''two''"
        "[[''home_team'' \<mapsto> PyStr ''France'', ''away_score'' \<mapsto> PyStr ''1'']]" "[]"]
  by (simp add: team_goals_def dict_getitem_def int_of_str_def is_space_def is_digit_def
      digits_value_def)

text \<open>
  C5, as stated, fails: a file with an empty line before the line with the malformed
  score gives a first record without score fields, and the sum ends with
  \<^verbatim>\<open>KeyError\<close>, which is not a parsing error.
\<close>

theorem malformed_score_counterexample:
  "generate_games [''home_team,home_score,away_score\<newline>'', ''\<newline>'', ''Italy,two,1\<newline>'']
     = Inr [[''home_team'' \<mapsto> PyStr ''''],
            [''home_team'' \<mapsto> PyStr ''Italy'', ''home_score'' \<mapsto> PyStr ''two'',
             ''away_score'' \<mapsto> PyStr ''1'']]
   \<and> int_of_str ''two'' = None
   \<and> sum_goals [[''home_team'' \<mapsto> PyStr ''''],
                [''home_team'' \<mapsto> PyStr ''Italy'', ''home_score'' \<mapsto> PyStr ''two'',
                 ''away_score'' \<mapsto> PyStr ''1'']] ''Italy''
     = Inl KeyError"
  by (simp add: generate_games_def row_splitter_def split_def dict_zip_def
      sum_goals_def team_goals_def dict_getitem_def int_of_str_def is_space_def is_digit_def)

end
